theory Spec2Isabelle
  imports Main
begin

section \<open>Python values used by \<^verbatim>\<open>mutils/mutations.py\<close>\<close>

text \<open>
  Exceptions are values. \<open>ValueError\<close> carries its message, because the module raises
  it in several places that callers tell apart only by the text; \<open>KeyError\<close> carries
  the missing key. \<open>TypeError\<close> is what \<^verbatim>\<open>len(None)\<close> raises.
\<close>

datatype error =
    ValueError string
  | TypeError
  | IndexError
  | KeyError string
  | NotImplementedError

text \<open>\<^verbatim>\<open>xs[i]\<close>: a negative index counts from the end; out of range raises.\<close>

definition getitem :: "'a list \<Rightarrow> int \<Rightarrow> error + 'a" where
  "getitem xs i =
     (if 0 \<le> i \<and> i < int (length xs) then Inr (xs ! nat i)
      else if i < 0 \<and> - int (length xs) \<le> i then Inr (xs ! nat (int (length xs) + i))
      else Inl IndexError)"

text \<open>
  \<^verbatim>\<open>xs[lo:hi]\<close> with step 1: each bound is optional, a negative bound counts from the
  end, and both are clamped to the sequence, so a slice never raises.
\<close>

definition slice_index :: "nat \<Rightarrow> int \<Rightarrow> nat" where
  "slice_index n i = (if i < 0 then nat (int n + i) else min n (nat i))"

definition slice :: "'a list \<Rightarrow> int option \<Rightarrow> int option \<Rightarrow> 'a list" where
  "slice xs lo hi =
     (let n = length xs;
          a = (case lo of None \<Rightarrow> 0 | Some i \<Rightarrow> slice_index n i);
          b = (case hi of None \<Rightarrow> n | Some j \<Rightarrow> slice_index n j)
      in take (b - a) (drop a xs))"

text \<open>\<^verbatim>\<open>s.replace(old, new)\<close> for a one-character \<open>old\<close>.\<close>

definition str_replace :: "char \<Rightarrow> string \<Rightarrow> string \<Rightarrow> string" where
  "str_replace old new s = concat (map (\<lambda>c. if c = old then new else [c]) s)"

text \<open>
  \<^verbatim>\<open>s.split(sep)\<close> for a one-character separator: the empty string splits into one
  empty piece, and adjacent separators give empty pieces.
\<close>

fun str_split :: "char \<Rightarrow> string \<Rightarrow> string list" where
  "str_split sep [] = [[]]"
| "str_split sep (c # cs) =
     (if c = sep then [] # str_split sep cs
      else (case str_split sep cs of [] \<Rightarrow> [[c]] | w # ws \<Rightarrow> (c # w) # ws))"

text \<open>\<^verbatim>\<open>sep.join(xs)\<close>.\<close>

fun str_join :: "string \<Rightarrow> string list \<Rightarrow> string" where
  "str_join sep [] = []"
| "str_join sep [x] = x"
| "str_join sep (x # y # ys) = x @ sep @ str_join sep (y # ys)"

text \<open>
  \<^verbatim>\<open>tuple(map(f, xs))\<close> where \<open>f\<close> may raise: the elements are evaluated from the left
  and the first exception ends the evaluation.
\<close>

fun try_map :: "('a \<Rightarrow> error + 'b) \<Rightarrow> 'a list \<Rightarrow> error + 'b list" where
  "try_map f [] = Inr []"
| "try_map f (x # xs) =
     (case f x of
        Inl e \<Rightarrow> Inl e
      | Inr y \<Rightarrow> (case try_map f xs of Inl e \<Rightarrow> Inl e | Inr ys \<Rightarrow> Inr (y # ys)))"

text \<open>
  \<^verbatim>\<open>itertools.combinations(xs, r)\<close>: the \<open>r\<close>-element subsequences of \<open>xs\<close> in
  lexicographic order of their index tuples; a negative \<open>r\<close> raises.
\<close>

fun combinations_of :: "'a list \<Rightarrow> nat \<Rightarrow> 'a list list" where
  "combinations_of xs 0 = [[]]"
| "combinations_of [] (Suc k) = []"
| "combinations_of (x # xs) (Suc k) =
     map ((#) x) (combinations_of xs k) @ combinations_of xs (Suc k)"

definition combinations :: "'a list \<Rightarrow> int \<Rightarrow> error + 'a list list" where
  "combinations xs r =
     (if r < 0 then Inl (ValueError ''r must be non-negative'')
      else Inr (combinations_of xs (nat r)))"

text \<open>
  \<^verbatim>\<open>itertools.product(*xss)\<close>: one element of every list, the right-most list varying
  fastest; no lists at all give the single empty tuple.
\<close>

fun itertools_product :: "'a list list \<Rightarrow> 'a list list" where
  "itertools_product [] = [[]]"
| "itertools_product (xs # xss) =
     concat (map (\<lambda>x. map ((#) x) (itertools_product xss)) xs)"

text \<open>\<^verbatim>\<open>xs.remove(v)\<close>: drops the first occurrence, raises when there is none.\<close>

definition list_remove :: "string list \<Rightarrow> string \<Rightarrow> error + string list" where
  "list_remove xs v =
     (if v \<in> set xs then Inr (remove1 v xs)
      else Inl (ValueError ''list.remove(x): x not in list''))"

section \<open>Class \<^verbatim>\<open>Mutation\<close>\<close>

text \<open>
  A mutation object has one attribute, the tuple of its point-mutation strings. The
  constructor is given \<^verbatim>\<open>mutstr\<close> (default \<^verbatim>\<open>''\<close>) and \<^verbatim>\<open>muttuple\<close> (default
  \<^verbatim>\<open>()\<close>); for an argument that is already a sequence of strings the conversion to a
  tuple at the top of the constructor cannot fail.
\<close>

record Mutation =
  muttuple :: "string list"

definition Mutation_init :: "string \<Rightarrow> string list \<Rightarrow> error + Mutation" where
  "Mutation_init mutstr mt =
     (if mutstr \<noteq> [] \<and> mt \<noteq> [] then Inl (ValueError ''Wrong constructor argument values.'')
      else if mutstr \<noteq> [] then
        Inr \<lparr>muttuple = str_split CHR '','' (str_replace CHR '' '' [] mutstr)\<rparr>
      else Inr \<lparr>muttuple = mt\<rparr>)"

text \<open>\<^verbatim>\<open>revert_single\<close>: \<^verbatim>\<open>mut[-1] + mut[1:-1] + mut[0]\<close>, evaluated from the left.\<close>

definition revert_single :: "string \<Rightarrow> error + string" where
  "revert_single mut =
     (case getitem mut (- 1) of
        Inl e \<Rightarrow> Inl e
      | Inr mutres \<Rightarrow>
          (case getitem mut 0 of
             Inl e \<Rightarrow> Inl e
           | Inr wtres \<Rightarrow> Inr ([mutres] @ slice mut (Some 1) (Some (- 1)) @ [wtres])))"

definition revert :: "Mutation \<Rightarrow> error + Mutation" where
  "revert self =
     (case try_map revert_single (muttuple self) of
        Inl e \<Rightarrow> Inl e
      | Inr ms \<Rightarrow> Mutation_init [] ms)"

text \<open>
  \<^verbatim>\<open>rename_chains_single\<close>: \<^verbatim>\<open>mut[:1] + dct[mut[1]] + mut[2:]\<close>. The rename dictionary is
  keyed by one-character strings.
\<close>

definition rename_chains_single :: "string \<Rightarrow> (string \<rightharpoonup> string) \<Rightarrow> error + string" where
  "rename_chains_single mut d =
     (case getitem mut 1 of
        Inl e \<Rightarrow> Inl e
      | Inr chainid \<Rightarrow>
          (case d [chainid] of
             None \<Rightarrow> Inl (KeyError [chainid])
           | Some new \<Rightarrow> Inr (slice mut None (Some 1) @ new @ slice mut (Some 2) None)))"

definition rename_chains :: "Mutation \<Rightarrow> (string \<rightharpoonup> string) \<Rightarrow> error + Mutation" where
  "rename_chains self d =
     (case try_map (\<lambda>mut. rename_chains_single mut d) (muttuple self) of
        Inl e \<Rightarrow> Inl e
      | Inr ms \<Rightarrow> Mutation_init [] ms)"

text \<open>\<^verbatim>\<open>__str__\<close>.\<close>

definition Mutation_str :: "Mutation \<Rightarrow> string" where
  "Mutation_str self = str_join '','' (muttuple self)"

text \<open>
  \<^verbatim>\<open>is_mutation_reversed\<close>. Three things it calls are not part of the module and are
  parameters here: \<open>to_int\<close> is Python's \<^verbatim>\<open>int\<close> on a string, \<open>get_model pdbfile model_id\<close>
  is \<^verbatim>\<open>Bio.PDB.PDBParser().get_structure(None, pdbfile)[model_id]\<close>, and
  \<open>resname model chainid pos\<close> is the one-letter code
  \<^verbatim>\<open>three_to_one(model[chainid][pos].get_resname())\<close>. Each of them may raise. The
  \<^verbatim>\<open>verbose\<close> decorator only governs printing and is left out.
\<close>

definition is_mutation_reversed ::
  "(string \<Rightarrow> error + int) \<Rightarrow> ('f \<Rightarrow> int \<Rightarrow> error + 'm) \<Rightarrow> ('m \<Rightarrow> string \<Rightarrow> int \<Rightarrow> error + string) \<Rightarrow>
   Mutation \<Rightarrow> 'f \<Rightarrow> int \<Rightarrow> error + bool" where
  "is_mutation_reversed to_int get_model resname self pdbfile model_id =
     (case getitem (muttuple self) 0 of
        Inl e \<Rightarrow> Inl e
      | Inr mut \<Rightarrow>
     (case getitem mut 0 of
        Inl e \<Rightarrow> Inl e
      | Inr wtres \<Rightarrow>
     (case getitem mut 1 of
        Inl e \<Rightarrow> Inl e
      | Inr chainid \<Rightarrow>
     (case to_int (slice mut (Some 2) (Some (- 1))) of
        Inl e \<Rightarrow> Inl e
      | Inr pos \<Rightarrow>
     (case getitem mut (- 1) of
        Inl e \<Rightarrow> Inl e
      | Inr mutres \<Rightarrow>
     (case get_model pdbfile model_id of
        Inl e \<Rightarrow> Inl e
      | Inr model \<Rightarrow>
     (case resname model [chainid] pos of
        Inl e \<Rightarrow> Inl e
      | Inr r \<Rightarrow>
          if r = [wtres] then Inr False
          else if r = [mutres] then Inr True
          else Inl (ValueError (mut @ '' is neither forward nor reverse.'')))))))))"

text \<open>
  The format of a point-mutation string given in the constructor's docstring:
  \<^verbatim>\<open><Wild-type residue><Chain id><Residue number><Mutated residue>\<close>, the residue
  number being a non-empty run of decimal digits. The module never checks it.
\<close>

definition is_digit :: "char \<Rightarrow> bool" where
  "is_digit c = (c \<in> set ''0123456789'')"

definition point_format :: "string \<Rightarrow> bool" where
  "point_format s = (4 \<le> length s \<and> list_all is_digit (slice s (Some 2) (Some (- 1))))"

section \<open>Class \<^verbatim>\<open>MutationSpace\<close>\<close>

text \<open>
  A Python dictionary iterates in insertion order, so the \<^verbatim>\<open>dct\<close> argument is an
  association list. \<^verbatim>\<open>_dict_to_list\<close> makes one slot per item: the key followed by each
  character of the value.
\<close>

definition dict_to_list :: "(string \<times> string) list \<Rightarrow> string list list" where
  "dict_to_list d = map (\<lambda>(pref, mts). map (\<lambda>mt. pref @ [mt]) mts) d"

record MutationSpace =
  dct :: "(string \<times> string) list option"
  lst :: "string list list"
  n_pos :: nat

text \<open>
  The constructor. With neither argument given \<^verbatim>\<open>self.lst\<close> is \<^verbatim>\<open>None\<close> and
  \<^verbatim>\<open>len(self.lst)\<close> raises, so no object exists whose \<^verbatim>\<open>lst\<close> is \<^verbatim>\<open>None\<close>.
\<close>

definition MutationSpace_init ::
  "(string \<times> string) list option \<Rightarrow> string list list option \<Rightarrow> error + MutationSpace" where
  "MutationSpace_init d l =
     (if d \<noteq> None \<and> l \<noteq> None then Inl (ValueError ''Both `dct` and `lst` passed.'')
      else
        (case (if l = None \<and> d \<noteq> None then map_option dict_to_list d else l) of
           None \<Rightarrow> Inl TypeError
         | Some slots \<Rightarrow> Inr \<lparr>dct = d, lst = slots, n_pos = length slots\<rparr>))"

text \<open>
  \<^verbatim>\<open>size\<close> for a given degree (the part of the method after the \<^verbatim>\<open>d is None\<close> test),
  then the method itself, which for an unspecified degree calls that part for every
  degree from 1 to \<^verbatim>\<open>n_pos\<close> with the default \<^verbatim>\<open>wt=False\<close>.
\<close>

definition size_degree :: "MutationSpace \<Rightarrow> int \<Rightarrow> bool \<Rightarrow> error + int" where
  "size_degree self d wt =
     (let retval = (if wt then 1 else 0)
      in if d = 0 then Inr retval
         else
           (case combinations [0..<length (lst self)] d of
              Inl e \<Rightarrow> Inl e
            | Inr combs \<Rightarrow>
                Inr (fold (\<lambda>comb r. r + prod_list (map (\<lambda>i. int (length (lst self ! i))) comb))
                       combs retval)))"

definition size_space :: "MutationSpace \<Rightarrow> int option \<Rightarrow> bool \<Rightarrow> error + int" where
  "size_space self d wt =
     (case d of
        None \<Rightarrow>
          (case try_map (\<lambda>d. size_degree self d False) (map int [1..<n_pos self + 1]) of
             Inl e \<Rightarrow> Inl e
           | Inr sizes \<Rightarrow> Inr (sum_list sizes))
      | Some d \<Rightarrow> size_degree self d wt)"

text \<open>
  \<^verbatim>\<open>construct\<close>. The method calls itself once, with the sentinel \<^verbatim>\<open>d=-1\<close>, on the space
  of each combination; that call always reaches the last part of the method
  (``generate full space''), which is \<open>construct_full\<close> here. \<open>joined_product\<close> is the
  product, the removal of the placeholders and the joining with commas.
\<close>

definition joined_product :: "string list list \<Rightarrow> string list" where
  "joined_product retval =
     map (str_join '','') (map (filter (\<lambda>s. s \<noteq> [])) (itertools_product retval))"

definition construct_full :: "MutationSpace \<Rightarrow> int option \<Rightarrow> error + string list" where
  "construct_full self d =
     (let retval = lst self;
          retval = (if d \<noteq> Some (- 1) then map (\<lambda>x. x @ [[]]) retval else retval);
          retval = joined_product retval
      in if d \<noteq> Some (- 1) then list_remove retval [] else Inr retval)"

fun construct_loop :: "string list list list \<Rightarrow> string list \<Rightarrow> error + string list" where
  "construct_loop [] retval = Inr retval"
| "construct_loop (comb # combs) retval =
     (case MutationSpace_init None (Some comb) of
        Inl e \<Rightarrow> Inl e
      | Inr sub \<Rightarrow>
          (case construct_full sub (Some (- 1)) of
             Inl e \<Rightarrow> Inl e
           | Inr r \<Rightarrow> construct_loop combs (retval @ r)))"

definition construct :: "MutationSpace \<Rightarrow> int option \<Rightarrow> int option \<Rightarrow> error + string list" where
  "construct self d n =
     (if n \<noteq> None then Inl NotImplementedError
      else if d = Some 0 then Inr []
      else if d \<noteq> None \<and> d \<noteq> Some (- 1) then
        (case combinations (lst self) (the d) of
           Inl e \<Rightarrow> Inl e
         | Inr combs \<Rightarrow> construct_loop combs [])
      else construct_full self d)"

section \<open>Sample inputs\<close>

text \<open>The dictionary of the constructor's docstring without its empty entry, and its space.\<close>

definition example_dct :: "(string \<times> string) list" where
  "example_dct = [(''YC17'', ''AG''), (''TA20'', ''A'')]"

definition example_space :: MutationSpace where
  "example_space =
     \<lparr>dct = Some example_dct, lst = [[''YC17A'', ''YC17G''], [''TA20A'']], n_pos = 2\<rparr>"

text \<open>A two-point mutation in the docstring's notation.\<close>

definition example_mutation :: Mutation where
  "example_mutation = \<lparr>muttuple = [''YC17T'', ''TA20A'']\<rparr>"

text \<open>
  The string \<^verbatim>\<open>YC17T,<TAB>TA20A\<close>: the docstring's example with a tab character after the
  comma.
\<close>

definition tab_mutstr :: string where
  "tab_mutstr = [CHR ''Y'', CHR ''C'', CHR ''1'', CHR ''7'', CHR ''T'', CHR '','', CHR 0x09,
                 CHR ''T'', CHR ''A'', CHR ''2'', CHR ''0'', CHR ''A'']"

text \<open>
  A sample of the three parameters of \<open>is_mutation_reversed\<close>: decimal reading of a
  run of ASCII digits, a file store holding one structure under the name \<open>''1abc.pdb''\<close>
  with the single model 0, and a structure as a table from chain and position to the
  one-letter residue code.
\<close>

definition example_to_int :: "string \<Rightarrow> error + int" where
  "example_to_int s =
     (if s \<noteq> [] \<and> list_all is_digit s
      then Inr (foldl (\<lambda>a c. 10 * a + (int (of_char c) - 48)) 0 s)
      else Inl (ValueError ''invalid literal for int() with base 10''))"

definition example_get_model :: "string \<Rightarrow> int \<Rightarrow> error + ((string \<times> int) \<times> string) list" where
  "example_get_model pdbfile model_id =
     (if pdbfile = ''1abc.pdb'' \<and> model_id = 0
      then Inr [((''C'', 17), ''Y''), ((''A'', 20), ''T'')]
      else Inl (KeyError pdbfile))"

definition example_resname :: "((string \<times> int) \<times> string) list \<Rightarrow> string \<Rightarrow> int \<Rightarrow> error + string" where
  "example_resname model chainid pos =
     (case map_of model (chainid, pos) of None \<Rightarrow> Inl (KeyError chainid) | Some r \<Rightarrow> Inr r)"

section \<open>Notions of the specification\<close>

text \<open>
  ``Whitespace'' as the specification's sentence on the string constructor uses it: the
  six ASCII whitespace characters of Python's \<^verbatim>\<open>string.whitespace\<close> (space, tab,
  newline, carriage return, vertical tab, form feed). \<open>remove_whitespace\<close> is the
  specification's ``removing all whitespace'', to be compared with what
  \<open>Mutation_init\<close> does.
\<close>

definition is_whitespace :: "char \<Rightarrow> bool" where
  "is_whitespace c = (c \<in> set [CHR '' '', CHR 0x09, CHR 0x0A, CHR 0x0D, CHR 0x0B, CHR 0x0C])"

definition remove_whitespace :: "string \<Rightarrow> string" where
  "remove_whitespace s = filter (\<lambda>c. \<not> is_whitespace c) s"

section \<open>Auxiliary notions\<close>

text \<open>Exchanging the first and the last element of a string.\<close>

definition swap_ends :: "string \<Rightarrow> string" where
  "swap_ends s = last s # butlast (tl s) @ [hd s]"

section \<open>Properties of the Python operations\<close>

subsection \<open>Indexing and slicing\<close>

lemma getitem_first: "xs \<noteq> [] \<Longrightarrow> getitem xs 0 = Inr (hd xs)"
  by (cases xs) (simp_all add: getitem_def)

lemma getitem_last: "xs \<noteq> [] \<Longrightarrow> getitem xs (- 1) = Inr (last xs)"
  by (cases xs rule: rev_cases) (simp_all add: getitem_def Let_def nth_append)

lemma getitem_second: "getitem xs 1 = (if 2 \<le> length xs then Inr (xs ! 1) else Inl IndexError)"
  by (auto simp add: getitem_def Let_def)

lemma slice_middle: "slice xs (Some 1) (Some (- 1)) = butlast (tl xs)"
  by (cases xs) (auto simp add: slice_def slice_index_def Let_def butlast_conv_take drop_Suc nat_diff_distrib')

lemma slice_prefix: "slice xs None (Some 1) = take 1 xs"
  by (simp add: slice_def slice_index_def Let_def min_def)

lemma slice_suffix: "slice xs (Some 2) None = drop 2 xs"
  by (simp add: slice_def slice_index_def Let_def min_def)

lemma slice_position: "slice xs (Some 2) (Some (- 1)) = butlast (drop 2 xs)"
  by (auto simp add: slice_def slice_index_def Let_def butlast_conv_take min_def nat_diff_distrib')

subsection \<open>Mapping a function that may raise\<close>

lemma try_map_all_ok: "(\<And>x. x \<in> set xs \<Longrightarrow> f x = Inr (g x)) \<Longrightarrow> try_map f xs = Inr (map g xs)"
  by (induction xs) simp_all

lemma try_map_first_error:
  assumes "\<And>x. x \<in> set xs \<Longrightarrow> (\<exists>y. f x = Inr y) \<or> (\<exists>e. f x = Inl e \<and> P e)"
    and "\<exists>x \<in> set xs. \<exists>e. f x = Inl e"
  shows "\<exists>e. try_map f xs = Inl e \<and> P e"
  using assms
proof (induction xs)
  case Nil
  then show ?case by simp
next
  case (Cons x xs)
  show ?case
  proof (cases "f x")
    case (Inl e)
    with Cons.prems(1) [of x] have "P e" by auto
    with Inl show ?thesis by simp
  next
    case (Inr y)
    with Cons.prems(2) have later: "\<exists>x \<in> set xs. \<exists>e. f x = Inl e" by auto
    have "\<exists>e. try_map f xs = Inl e \<and> P e"
      by (rule Cons.IH) (use Cons.prems(1) later in auto)
    with Inr show ?thesis by auto
  qed
qed

subsection \<open>Reverting\<close>

lemma revert_single_fields: "revert_single (w # mid @ [t]) = Inr (t # mid @ [w])"
  by (simp add: revert_single_def getitem_first getitem_last slice_middle butlast_append)

lemma two_chars_fields:
  assumes "2 \<le> length s"
  shows "\<exists>w mid t. s = w # mid @ [t]"
proof (cases s)
  case Nil
  with assms show ?thesis by simp
next
  case (Cons w r)
  with assms have "r \<noteq> []" by auto
  then have "r = butlast r @ [last r]" by simp
  with Cons show ?thesis by blast
qed

lemma point_format_length: "point_format s \<Longrightarrow> 2 \<le> length s"
  by (simp add: point_format_def)

lemma revert_single_swap: "2 \<le> length s \<Longrightarrow> revert_single s = Inr (swap_ends s)"
  using two_chars_fields [of s] by (auto simp add: revert_single_fields swap_ends_def butlast_append)

lemma swap_ends_twice: "2 \<le> length s \<Longrightarrow> swap_ends (swap_ends s) = s"
  using two_chars_fields [of s] by (auto simp add: swap_ends_def butlast_append)

lemma swap_ends_length: "2 \<le> length s \<Longrightarrow> 2 \<le> length (swap_ends s)"
  by (simp add: swap_ends_def)

lemma swap_ends_fields: "2 \<le> length s \<Longrightarrow> \<exists>w mid t. s = w # mid @ [t] \<and> swap_ends s = t # mid @ [w]"
  using two_chars_fields [of s] by (auto simp add: swap_ends_def butlast_append)

lemma revert_swap:
  assumes "\<forall>s \<in> set (muttuple m). 2 \<le> length s"
  shows "revert m = Inr \<lparr>muttuple = map swap_ends (muttuple m)\<rparr>"
proof -
  have "try_map revert_single (muttuple m) = Inr (map swap_ends (muttuple m))"
    by (rule try_map_all_ok) (use assms revert_single_swap in auto)
  then show ?thesis by (simp add: revert_def Mutation_init_def)
qed

text \<open>
  Claim C4. Let every point-mutation string of a mutation have the four-field format (wild
  type, chain id, position digits, mutant). Then \<open>revert\<close> succeeds on it and on its
  result, the second result stores the original sequence again, and each single
  \<open>revert\<close> exchanges the first and the last character of every string and keeps the
  characters between them. The result is a new value; the argument is not changed (in
  the source the method only reads \<^verbatim>\<open>self.muttuple\<close>).
\<close>

theorem revert_involution:
  assumes "\<forall>s \<in> set (muttuple m). point_format s"
  shows "\<exists>m1 m2. revert m = Inr m1 \<and> revert m1 = Inr m2 \<and> muttuple m2 = muttuple m \<and>
           list_all2 (\<lambda>s s'. \<exists>w mid t. s = w # mid @ [t] \<and> s' = t # mid @ [w])
             (muttuple m) (muttuple m1)"
proof -
  let ?m1 = "\<lparr>muttuple = map swap_ends (muttuple m)\<rparr>"
  let ?m2 = "\<lparr>muttuple = map swap_ends (muttuple ?m1)\<rparr>"
  from assms have len: "\<forall>s \<in> set (muttuple m). 2 \<le> length s"
    by (auto dest: point_format_length)
  then have r1: "revert m = Inr ?m1" by (rule revert_swap)
  from len have "\<forall>s \<in> set (muttuple ?m1). 2 \<le> length s"
    by (auto simp add: swap_ends_length)
  then have r2: "revert ?m1 = Inr ?m2" by (rule revert_swap)
  from len have same: "muttuple ?m2 = muttuple m"
    by (simp add: swap_ends_twice map_idI)
  from len have "list_all2 (\<lambda>s s'. \<exists>w mid t. s = w # mid @ [t] \<and> s' = t # mid @ [w])
      (muttuple m) (muttuple ?m1)"
    by (auto simp add: list_all2_conv_all_nth swap_ends_fields)
  with r1 r2 same show ?thesis by blast
qed

text \<open>The hypothesis of C4 holds for \<^verbatim>\<open>YC17T,TA20A\<close>.\<close>

theorem revert_involution_witness:
  "list_all point_format (muttuple example_mutation) \<and>
   (\<exists>m1 m2. revert example_mutation = Inr m1 \<and> revert m1 = Inr m2 \<and>
      muttuple m2 = muttuple example_mutation \<and>
      list_all2 (\<lambda>s s'. \<exists>w mid t. s = w # mid @ [t] \<and> s' = t # mid @ [w])
        (muttuple example_mutation) (muttuple m1))"
proof -
  have h: "\<forall>s \<in> set (muttuple example_mutation). point_format s"
    by (simp add: example_mutation_def point_format_def slice_position is_digit_def)
  from h revert_involution [OF h] show ?thesis by (simp only: list_all_iff)
qed

subsection \<open>Renaming chains\<close>

lemma rename_chains_single_cases:
  "2 \<le> length s \<Longrightarrow>
   rename_chains_single s d =
     (case d [s ! 1] of None \<Rightarrow> Inl (KeyError [s ! 1])
      | Some new \<Rightarrow> Inr (take 1 s @ new @ drop 2 s))"
  by (simp add: rename_chains_single_def getitem_second slice_prefix slice_suffix
      split: option.splits)

text \<open>
  Claim C7, for mutations whose point-mutation strings all have a second character. If the
  mapping has an entry for every chain id, \<open>rename_chains\<close> returns the mutation in
  which the second character of each string is replaced by the mapping's value for it;
  if some chain id has no entry it raises \<open>KeyError\<close>, for a key that is not in the
  mapping; and \<^verbatim>\<open>{'C': 'A'}\<close> sends \<^verbatim>\<open>YC17T\<close> to \<^verbatim>\<open>YA17T\<close>.
\<close>

theorem rename_chains_mapped_or_KeyError:
  assumes "\<forall>s \<in> set (muttuple m). 2 \<le> length s"
  shows "((\<forall>s \<in> set (muttuple m). d [s ! 1] \<noteq> None) \<longrightarrow>
            rename_chains m d =
              Inr \<lparr>muttuple = map (\<lambda>s. take 1 s @ the (d [s ! 1]) @ drop 2 s) (muttuple m)\<rparr>) \<and>
         ((\<exists>s \<in> set (muttuple m). d [s ! 1] = None) \<longrightarrow>
            (\<exists>k. rename_chains m d = Inl (KeyError k) \<and> d k = None)) \<and>
         rename_chains \<lparr>muttuple = [''YC17T'']\<rparr> [''C'' \<mapsto> ''A''] = Inr \<lparr>muttuple = [''YA17T'']\<rparr>"
proof (intro conjI impI)
  assume all: "\<forall>s \<in> set (muttuple m). d [s ! 1] \<noteq> None"
  have "try_map (\<lambda>mut. rename_chains_single mut d) (muttuple m) =
          Inr (map (\<lambda>s. take 1 s @ the (d [s ! 1]) @ drop 2 s) (muttuple m))"
    by (rule try_map_all_ok) (use assms all in \<open>auto simp add: rename_chains_single_cases\<close>)
  then show "rename_chains m d =
      Inr \<lparr>muttuple = map (\<lambda>s. take 1 s @ the (d [s ! 1]) @ drop 2 s) (muttuple m)\<rparr>"
    by (simp add: rename_chains_def Mutation_init_def)
next
  assume some: "\<exists>s \<in> set (muttuple m). d [s ! 1] = None"
  have "\<exists>e. try_map (\<lambda>mut. rename_chains_single mut d) (muttuple m) = Inl e \<and>
          (\<exists>k. e = KeyError k \<and> d k = None)"
  proof (rule try_map_first_error)
    fix s assume "s \<in> set (muttuple m)"
    with assms have "2 \<le> length s" by simp
    then show "(\<exists>y. rename_chains_single s d = Inr y) \<or>
        (\<exists>e. rename_chains_single s d = Inl e \<and> (\<exists>k. e = KeyError k \<and> d k = None))"
      by (cases "d [s ! 1]") (simp_all add: rename_chains_single_cases)
  next
    from some obtain s where "s \<in> set (muttuple m)" and "d [s ! 1] = None" by blast
    with assms have "rename_chains_single s d = Inl (KeyError [s ! 1])"
      by (simp add: rename_chains_single_cases)
    with \<open>s \<in> set (muttuple m)\<close>
    show "\<exists>s \<in> set (muttuple m). \<exists>e. rename_chains_single s d = Inl e" by blast
  qed
  then show "\<exists>k. rename_chains m d = Inl (KeyError k) \<and> d k = None"
    by (auto simp add: rename_chains_def)
next
  show "rename_chains \<lparr>muttuple = [''YC17T'']\<rparr> [''C'' \<mapsto> ''A''] = Inr \<lparr>muttuple = [''YA17T'']\<rparr>"
    by (simp add: rename_chains_def rename_chains_single_cases Mutation_init_def)
qed

text \<open>Both cases of C7 at \<^verbatim>\<open>YC17T,TA20A\<close>: a mapping with both chains, and one without chain A.\<close>

theorem rename_chains_mapped_or_KeyError_witness:
  "list_all (\<lambda>s. 2 \<le> length s) (muttuple example_mutation) \<and>
   list_all (\<lambda>s. [''C'' \<mapsto> ''A'', ''A'' \<mapsto> ''B''] [s ! 1] \<noteq> None) (muttuple example_mutation) \<and>
   rename_chains example_mutation [''C'' \<mapsto> ''A'', ''A'' \<mapsto> ''B''] =
     Inr \<lparr>muttuple = [''YA17T'', ''TB20A'']\<rparr> \<and>
   (\<exists>s \<in> set (muttuple example_mutation). [''C'' \<mapsto> ''A''] [s ! 1] = None) \<and>
   (\<exists>k. rename_chains example_mutation [''C'' \<mapsto> ''A''] = Inl (KeyError k) \<and>
        [''C'' \<mapsto> ''A''] k = None)"
proof -
  have len: "\<forall>s \<in> set (muttuple example_mutation). 2 \<le> length s"
    by (simp add: example_mutation_def)
  have all: "\<forall>s \<in> set (muttuple example_mutation).
      [''C'' \<mapsto> ''A'', ''A'' \<mapsto> ''B''] [s ! 1] \<noteq> None"
    by (simp add: example_mutation_def)
  have some: "\<exists>s \<in> set (muttuple example_mutation). [''C'' \<mapsto> ''A''] [s ! 1] = None"
    by (simp add: example_mutation_def)
  from rename_chains_mapped_or_KeyError [OF len, of "[''C'' \<mapsto> ''A'', ''A'' \<mapsto> ''B'']"] all
  have both: "rename_chains example_mutation [''C'' \<mapsto> ''A'', ''A'' \<mapsto> ''B''] =
     Inr \<lparr>muttuple = [''YA17T'', ''TB20A'']\<rparr>"
    by (simp add: example_mutation_def)
  from rename_chains_mapped_or_KeyError [OF len, of "[''C'' \<mapsto> ''A'']"] some
  have one: "\<exists>k. rename_chains example_mutation [''C'' \<mapsto> ''A''] = Inl (KeyError k) \<and>
      [''C'' \<mapsto> ''A''] k = None"
    by blast
  from len all both some one show ?thesis by (simp only: list_all_iff)
qed

text \<open>
  C7 does not hold for every mutation: the constructor checks no format, and for
  \<^verbatim>\<open>Mutation('Y,YC17T')\<close> and the empty mapping the chain id \<^verbatim>\<open>C\<close> has no entry, yet the
  exception is the \<open>IndexError\<close> of \<^verbatim>\<open>mut[1]\<close> on the one-character string, not a
  \<open>KeyError\<close>.
\<close>

theorem rename_chains_short_counterexample:
  "rename_chains \<lparr>muttuple = [''Y'', ''YC17T'']\<rparr> Map.empty = Inl IndexError \<and>
   (\<forall>k. rename_chains \<lparr>muttuple = [''Y'', ''YC17T'']\<rparr> Map.empty \<noteq> Inl (KeyError k))"
  by (simp add: rename_chains_def rename_chains_single_def getitem_def)

subsection \<open>The string constructor\<close>

lemma str_replace_remove: "str_replace c [] s = filter (\<lambda>x. x \<noteq> c) s"
  by (induction s) (simp_all add: str_replace_def)

lemma str_split_not_Nil: "str_split sep s \<noteq> []"
  by (induction s) (auto split: list.splits)

lemma str_join_Cons: "ws \<noteq> [] \<Longrightarrow> str_join sep (w # ws) = w @ sep @ str_join sep ws"
  by (cases ws) simp_all

lemma str_join_split: "str_join [sep] (str_split sep s) = s"
proof (induction s)
  case Nil
  then show ?case by simp
next
  case (Cons c cs)
  obtain w ws where sp: "str_split sep cs = w # ws"
    using str_split_not_Nil [of sep cs] by (cases "str_split sep cs") auto
  show ?case
  proof (cases "c = sep")
    case True
    with Cons sp show ?thesis by (simp add: str_join_Cons)
  next
    case False
    have "str_join [sep] ((c # w) # ws) = c # str_join [sep] (w # ws)"
      by (cases ws) simp_all
    with False Cons sp show ?thesis by simp
  qed
qed

text \<open>
  Claim C8, with ``space characters'' for ``whitespace''. For a non-empty string the
  constructor stores the pieces obtained by deleting every space character and splitting
  at the commas, and the string form of the new mutation is the argument with every
  space character deleted.
\<close>

theorem Mutation_init_removes_spaces:
  assumes "s \<noteq> []"
  shows "\<exists>m. Mutation_init s [] = Inr m \<and>
           muttuple m = str_split CHR '','' (filter (\<lambda>c. c \<noteq> CHR '' '') s) \<and>
           Mutation_str m = filter (\<lambda>c. c \<noteq> CHR '' '') s"
  using assms str_join_split [of "CHR '',''" "filter (\<lambda>c. c \<noteq> CHR '' '') s"]
  by (simp add: Mutation_init_def Mutation_str_def str_replace_remove)

text \<open>C8 at the docstring's example written with a space after the comma.\<close>

theorem Mutation_init_removes_spaces_witness:
  "''YC17T, TA20A'' \<noteq> [] \<and>
   (\<exists>m. Mutation_init ''YC17T, TA20A'' [] = Inr m \<and>
      muttuple m = str_split CHR '','' (filter (\<lambda>c. c \<noteq> CHR '' '') ''YC17T, TA20A'') \<and>
      Mutation_str m = filter (\<lambda>c. c \<noteq> CHR '' '') ''YC17T, TA20A'')"
  using Mutation_init_removes_spaces [of "''YC17T, TA20A''"] by simp

text \<open>
  C8 fails for whitespace other than the space character: a tab stays in the stored
  string, so the stored sequence and the string form differ from those of the argument
  with all whitespace removed.
\<close>

theorem Mutation_init_whitespace_counterexample:
  "tab_mutstr \<noteq> [] \<and> (\<exists>c \<in> set tab_mutstr. is_whitespace c) \<and>
   Mutation_init tab_mutstr [] = Inr \<lparr>muttuple = [''YC17T'', CHR 0x09 # ''TA20A'']\<rparr> \<and>
   str_split CHR '','' (remove_whitespace tab_mutstr) = [''YC17T'', ''TA20A''] \<and>
   Mutation_str \<lparr>muttuple = [''YC17T'', CHR 0x09 # ''TA20A'']\<rparr> \<noteq> remove_whitespace tab_mutstr"
  by (simp add: tab_mutstr_def Mutation_init_def str_replace_def Mutation_str_def
      remove_whitespace_def is_whitespace_def)

subsection \<open>Reversed or direct\<close>

text \<open>
  Claim C6. Let the first point-mutation string parse (it has its first two characters
  and its position reads as an integer), let the structure load and let the lookup at its
  chain and position observe the residue \<open>r\<close>. Then the method returns \<open>False\<close> if
  \<open>r\<close> is the declared wild type, otherwise \<open>True\<close> if \<open>r\<close> is the declared
  mutant, and otherwise raises the \<open>ValueError\<close> ``neither forward nor reverse''; and
  the result is that of the mutation consisting of the first string alone.
\<close>

theorem is_mutation_reversed_cases:
  assumes "muttuple m = mut # rest"
    and "2 \<le> length mut"
    and "to_int (slice mut (Some 2) (Some (- 1))) = Inr pos"
    and "get_model pdbfile model_id = Inr model"
    and "resname model [mut ! 1] pos = Inr r"
  shows "is_mutation_reversed to_int get_model resname m pdbfile model_id =
           (if r = [hd mut] then Inr False
            else if r = [last mut] then Inr True
            else Inl (ValueError (mut @ '' is neither forward nor reverse.''))) \<and>
         is_mutation_reversed to_int get_model resname m pdbfile model_id =
           is_mutation_reversed to_int get_model resname \<lparr>muttuple = [mut]\<rparr> pdbfile model_id"
proof -
  from assms(2) have ne: "mut \<noteq> []" by auto
  have first: "getitem (mut # rest) 0 = Inr mut" "getitem [mut] 0 = Inr mut"
    by (simp_all add: getitem_first)
  from ne assms show ?thesis
    by (simp add: is_mutation_reversed_def first getitem_first getitem_last getitem_second)
qed

text \<open>C6 at \<^verbatim>\<open>YC17T,TA20A\<close> for a structure with residue Y at position 17 of chain C.\<close>

theorem is_mutation_reversed_cases_witness:
  "muttuple example_mutation = ''YC17T'' # [''TA20A''] \<and>
   2 \<le> length ''YC17T'' \<and>
   example_to_int (slice ''YC17T'' (Some 2) (Some (- 1))) = Inr 17 \<and>
   example_get_model ''1abc.pdb'' 0 = Inr [((''C'', 17), ''Y''), ((''A'', 20), ''T'')] \<and>
   example_resname [((''C'', 17), ''Y''), ((''A'', 20), ''T'')] [''YC17T'' ! 1] 17 = Inr ''Y'' \<and>
   is_mutation_reversed example_to_int example_get_model example_resname
     example_mutation ''1abc.pdb'' 0 = Inr False"
proof -
  have h1: "muttuple example_mutation = ''YC17T'' # [''TA20A'']"
    by (simp add: example_mutation_def)
  have h2: "2 \<le> length ''YC17T''" by simp
  have h3: "example_to_int (slice ''YC17T'' (Some 2) (Some (- 1))) = Inr 17"
    by (simp add: slice_position example_to_int_def is_digit_def)
  have h4: "example_get_model ''1abc.pdb'' 0 = Inr [((''C'', 17), ''Y''), ((''A'', 20), ''T'')]"
    by (simp add: example_get_model_def)
  have h5: "example_resname [((''C'', 17), ''Y''), ((''A'', 20), ''T'')] [''YC17T'' ! 1] 17 = Inr ''Y''"
    by (simp add: example_resname_def)
  from is_mutation_reversed_cases
    [where to_int = example_to_int and get_model = example_get_model
       and resname = example_resname, OF h1 h2 h3 h4 h5]
  have "is_mutation_reversed example_to_int example_get_model example_resname
     example_mutation ''1abc.pdb'' 0 = Inr False"
    by simp
  with h1 h2 h3 h4 h5 show ?thesis by blast
qed

subsection \<open>Combinations and products\<close>

lemma combinations_of_map: "combinations_of (map f xs) k = map (map f) (combinations_of xs k)"
  by (induction xs k rule: combinations_of.induct) simp_all

lemma combinations_of_indices:
  "map (map ((!) xs)) (combinations_of [0..<length xs] k) = combinations_of xs k"
  using combinations_of_map [of "(!) xs" "[0..<length xs]" k] by (simp add: map_nth)

lemma combinations_of_too_many: "length xs < k \<Longrightarrow> combinations_of xs k = []"
  by (induction xs k rule: combinations_of.induct) simp_all

lemma length_itertools_product: "length (itertools_product xss) = prod_list (map length xss)"
proof (induction xss)
  case Nil
  then show ?case by simp
next
  case (Cons xs xss)
  have "length (concat (map (\<lambda>x. map ((#) x) (itertools_product xss)) xs)) =
          length xs * length (itertools_product xss)"
    by (induction xs) simp_all
  with Cons show ?case by simp
qed

lemma length_joined_product: "length (joined_product xss) = prod_list (map length xss)"
  by (simp add: joined_product_def length_itertools_product)

lemma example_space_built: "MutationSpace_init (Some example_dct) None = Inr example_space"
  by (simp add: MutationSpace_init_def example_dct_def example_space_def dict_to_list_def)

subsection \<open>The two loops\<close>

lemma fold_add: "fold (\<lambda>c r. r + f c) cs (r0 :: int) = r0 + sum_list (map f cs)"
  by (induction cs arbitrary: r0) simp_all

lemma construct_loop_concat:
  "construct_loop combs acc = Inr (acc @ concat (map joined_product combs))"
  by (induction combs arbitrary: acc) (simp_all add: MutationSpace_init_def construct_full_def)

lemma size_degree_sum:
  "0 \<le> d \<Longrightarrow>
   size_degree self d wt =
     Inr ((if wt then 1 else 0) +
          (if d = 0 then 0
           else sum_list (map (\<lambda>comb. prod_list (map (\<lambda>slot. int (length slot)) comb))
                            (combinations_of (lst self) (nat d)))))"
proof -
  assume d: "0 \<le> d"
  have "map (\<lambda>comb. prod_list (map (\<lambda>i. int (length (lst self ! i))) comb))
          (combinations_of [0..<length (lst self)] (nat d)) =
        map (\<lambda>comb. prod_list (map (\<lambda>slot. int (length slot)) comb))
          (map (map ((!) (lst self))) (combinations_of [0..<length (lst self)] (nat d)))"
    by (simp add: comp_def)
  then have "map (\<lambda>comb. prod_list (map (\<lambda>i. int (length (lst self ! i))) comb))
          (combinations_of [0..<length (lst self)] (nat d)) =
        map (\<lambda>comb. prod_list (map (\<lambda>slot. int (length slot)) comb))
          (combinations_of (lst self) (nat d))"
    by (simp only: combinations_of_indices)
  with d show ?thesis
    by (simp add: size_degree_def combinations_def fold_add)
qed

lemma int_prod_list_length:
  "int (prod_list (map length comb)) = prod_list (map (\<lambda>slot. int (length slot)) comb)"
  by (induction comb) simp_all

lemma length_concat_joined:
  "int (length (concat (map joined_product combs))) =
     sum_list (map (\<lambda>comb. prod_list (map (\<lambda>slot. int (length slot)) comb)) combs)"
  by (induction combs) (simp_all add: length_joined_product int_prod_list_length)

lemma construct_degree:
  "0 < d \<Longrightarrow>
   construct self (Some d) None = Inr (concat (map joined_product (combinations_of (lst self) (nat d))))"
  by (simp add: construct_def combinations_def construct_loop_concat)

text \<open>
  Claim C1. For a space built from a dictionary and a degree \<open>d\<close> from 0 to \<open>n_pos\<close>,
  \<open>construct\<close> returns a list whose length is the value of \<open>size\<close> for the same
  degree without the wild type; for degree 0 the list is empty and the size is 0.
\<close>

theorem construct_length_equals_size:
  assumes "MutationSpace_init (Some dic) None = Inr self" and "0 \<le> d" and "d \<le> int (n_pos self)"
  shows "(\<exists>ys. construct self (Some d) None = Inr ys \<and>
               size_space self (Some d) False = Inr (int (length ys))) \<and>
         construct self (Some 0) None = Inr [] \<and>
         size_space self (Some 0) False = Inr 0"
proof (intro conjI)
  show "\<exists>ys. construct self (Some d) None = Inr ys \<and>
               size_space self (Some d) False = Inr (int (length ys))"
  proof (cases "d = 0")
    case True
    then show ?thesis by (simp add: construct_def size_space_def size_degree_def)
  next
    case False
    with assms(2) have "0 < d" by simp
    then show ?thesis
      by (simp add: construct_degree size_space_def size_degree_sum length_concat_joined)
  qed
next
  show "construct self (Some 0) None = Inr []" by (simp add: construct_def)
next
  show "size_space self (Some 0) False = Inr 0" by (simp add: size_space_def size_degree_def)
qed

text \<open>C1 at the sample space and degree 2.\<close>

theorem construct_length_equals_size_witness:
  "MutationSpace_init (Some example_dct) None = Inr example_space \<and>
   (0::int) \<le> 2 \<and> 2 \<le> int (n_pos example_space) \<and>
   (\<exists>ys. construct example_space (Some 2) None = Inr ys \<and>
          size_space example_space (Some 2) False = Inr (int (length ys))) \<and>
   construct example_space (Some 0) None = Inr [] \<and>
   size_space example_space (Some 0) False = Inr 0"
proof -
  have h1: "MutationSpace_init (Some example_dct) None = Inr example_space"
    by (rule example_space_built)
  have h2: "(0::int) \<le> 2" by simp
  have h3: "2 \<le> int (n_pos example_space)" by (simp add: example_space_def)
  from construct_length_equals_size [OF h1 h2 h3] h1 h2 h3 show ?thesis by blast
qed

subsection \<open>The full space\<close>

lemma str_join_empty_iff:
  "(\<And>s. s \<in> set xs \<Longrightarrow> s \<noteq> []) \<Longrightarrow> str_join sep xs = [] \<longleftrightarrow> xs = []"
  by (induction sep xs rule: str_join.induct) simp_all

lemma joined_empty_iff:
  "str_join sep (filter (\<lambda>s. s \<noteq> []) t) = [] \<longleftrightarrow> list_all (\<lambda>s. s = []) t"
proof -
  have "str_join sep (filter (\<lambda>s. s \<noteq> []) t) = [] \<longleftrightarrow> filter (\<lambda>s. s \<noteq> []) t = []"
    by (rule str_join_empty_iff) simp
  then show ?thesis by (simp add: filter_empty_conv list_all_iff)
qed

lemma count_list_map_filter: "count_list (map f xs) y = length (filter (\<lambda>x. f x = y) xs)"
  by (induction xs) simp_all

lemma length_filter_eq: "length (filter (\<lambda>s. s = y) xs) = count_list xs y"
  by (induction xs) simp_all

lemma count_all_in_row:
  "length (filter (list_all Q) (concat (map (\<lambda>x. map ((#) x) R) xs))) =
     length (filter Q xs) * length (filter (list_all Q) R)"
proof (induction xs)
  case Nil
  then show ?case by simp
next
  case (Cons x xs)
  have "filter (list_all Q) (map ((#) x) R) =
          (if Q x then map ((#) x) (filter (list_all Q) R) else [])"
    by (induction R) simp_all
  then have "length (filter (list_all Q) (map ((#) x) R)) =
          (if Q x then length (filter (list_all Q) R) else 0)"
    by simp
  with Cons show ?case by simp
qed

lemma count_all_in_product:
  "length (filter (list_all Q) (itertools_product xss)) =
     prod_list (map (\<lambda>xs. length (filter Q xs)) xss)"
  by (induction xss) (simp_all add: count_all_in_row)

lemma count_empty_joined:
  "count_list (joined_product xss) [] = prod_list (map (\<lambda>xs. count_list xs []) xss)"
proof -
  have "count_list (joined_product xss) [] =
          length (filter (list_all (\<lambda>s. s = [])) (itertools_product xss))"
    by (simp add: joined_product_def count_list_map_filter joined_empty_iff comp_def)
  also have "\<dots> = prod_list (map (\<lambda>xs. length (filter (\<lambda>s. s = []) xs)) xss)"
    by (rule count_all_in_product)
  also have "\<dots> = prod_list (map (\<lambda>xs. count_list xs []) xss)"
    by (simp only: length_filter_eq)
  finally show ?thesis .
qed

lemma dict_to_list_nonempty:
  "slot \<in> set (dict_to_list dic) \<Longrightarrow> [] \<notin> set slot"
  by (auto simp add: dict_to_list_def)

lemma prod_list_all_one: "(\<And>x. x \<in> set xs \<Longrightarrow> f x = (1::nat)) \<Longrightarrow> prod_list (map f xs) = 1"
  by (induction xs) simp_all

lemma one_empty_in_dict_product:
  "count_list (joined_product (map (\<lambda>x. x @ [[]]) (dict_to_list dic))) [] = 1"
proof -
  have "prod_list (map (\<lambda>xs. count_list xs []) (map (\<lambda>x. x @ [[]]) (dict_to_list dic))) =
          prod_list (map (\<lambda>x. count_list (x @ [[]]) []) (dict_to_list dic))"
    by (simp add: comp_def)
  also have "\<dots> = 1"
    by (rule prod_list_all_one) (simp add: dict_to_list_nonempty)
  finally show ?thesis by (simp only: count_empty_joined)
qed

lemma count_after_remove1: "count_list (remove1 x xs) x = count_list xs x - 1"
  by (induction xs) auto

text \<open>
  Claim C5. For a space built from a dictionary, the product over the slots with the
  appended empty placeholders yields the empty string exactly once; \<open>construct\<close> with
  unspecified degree returns that list with the empty string removed, and the returned
  list does not contain the empty string.
\<close>

theorem construct_full_space_no_empty:
  assumes "MutationSpace_init (Some dic) None = Inr self"
  shows "count_list (joined_product (map (\<lambda>x. x @ [[]]) (lst self))) [] = 1 \<and>
         construct self None None =
           Inr (remove1 [] (joined_product (map (\<lambda>x. x @ [[]]) (lst self)))) \<and>
         (\<exists>ys. construct self None None = Inr ys \<and> [] \<notin> set ys)"
proof -
  let ?all = "joined_product (map (\<lambda>x. x @ [[]]) (lst self))"
  from assms have slots: "lst self = dict_to_list dic"
    by (auto simp add: MutationSpace_init_def)
  then have one: "count_list ?all [] = 1"
    by (simp add: one_empty_in_dict_product)
  then have "count_list ?all [] \<noteq> 0" by simp
  then have "[] \<in> set ?all" by (simp add: count_list_0_iff)
  then have res: "construct self None None = Inr (remove1 [] ?all)"
    by (simp add: construct_def construct_full_def list_remove_def)
  have "count_list (remove1 [] ?all) [] = count_list ?all [] - 1"
    by (rule count_after_remove1)
  with one have zero: "count_list (remove1 [] ?all) [] = 0" by (simp only: diff_self_eq_0)
  have "[] \<notin> set (remove1 [] ?all)"
    using zero count_list_0_iff [of "remove1 [] ?all" "[]"] by blast
  with one res show ?thesis by simp
qed

text \<open>C5 at the sample space.\<close>

theorem construct_full_space_no_empty_witness:
  "MutationSpace_init (Some example_dct) None = Inr example_space \<and>
   count_list (joined_product (map (\<lambda>x. x @ [[]]) (lst example_space))) [] = 1 \<and>
   construct example_space None None =
     Inr (remove1 [] (joined_product (map (\<lambda>x. x @ [[]]) (lst example_space)))) \<and>
   (\<exists>ys. construct example_space None None = Inr ys \<and> [] \<notin> set ys)"
proof -
  have h: "MutationSpace_init (Some example_dct) None = Inr example_space"
    by (rule example_space_built)
  from construct_full_space_no_empty [OF h] h show ?thesis by blast
qed


subsection \<open>The wild-type flag\<close>

text \<open>
  Claim C2, as the method computes it: for a positive degree the count with the wild type
  is the count without it plus 1. The flag sets the initial value of the running total,
  whatever the degree.
\<close>

theorem size_wild_type_adds_one:
  assumes "0 < d"
  shows "\<exists>v. size_space self (Some d) False = Inr v \<and> size_space self (Some d) True = Inr (v + 1)"
  using assms by (simp add: size_space_def size_degree_sum)

text \<open>C2 at the sample space and degree 1.\<close>

theorem size_wild_type_adds_one_witness:
  "(0::int) < 1 \<and>
   (\<exists>v. size_space example_space (Some 1) False = Inr v \<and>
        size_space example_space (Some 1) True = Inr (v + 1))"
  using size_wild_type_adds_one [of 1 example_space] by simp

text \<open>
  C2 as stated fails: on the sample space at degree 1 the two counts are 4 and 3.
\<close>

theorem size_wild_type_counterexample:
  "(0::int) < 1 \<and>
   size_space example_space (Some 1) True = Inr 4 \<and>
   size_space example_space (Some 1) False = Inr 3 \<and>
   size_space example_space (Some 1) True \<noteq> size_space example_space (Some 1) False"
  by (simp add: size_space_def size_degree_def combinations_def example_space_def
      eval_nat_numeral upt_rec)

subsection \<open>Degrees beyond the number of slots\<close>

text \<open>
  Claim C10. For a constructed space and a degree greater than \<open>n_pos\<close>, \<open>size\<close>
  returns 0 without the wild type and 1 with it, and does not raise.
\<close>

theorem size_beyond_n_pos:
  assumes "MutationSpace_init dopt lopt = Inr self" and "int (n_pos self) < d"
  shows "size_space self (Some d) False = Inr 0 \<and> size_space self (Some d) True = Inr 1"
proof -
  from assms(1) have "n_pos self = length (lst self)"
    by (auto simp add: MutationSpace_init_def split: if_splits option.splits)
  with assms(2) have "length (lst self) < nat d" and "0 \<le> d" and "d \<noteq> 0" by auto
  then show ?thesis
    by (simp add: size_space_def size_degree_sum combinations_of_too_many)
qed

text \<open>C10 at the sample space, which has two slots, and degree 3.\<close>

theorem size_beyond_n_pos_witness:
  "MutationSpace_init (Some example_dct) None = Inr example_space \<and>
   int (n_pos example_space) < 3 \<and>
   size_space example_space (Some 3) False = Inr 0 \<and>
   size_space example_space (Some 3) True = Inr 1"
proof -
  have h1: "MutationSpace_init (Some example_dct) None = Inr example_space"
    by (rule example_space_built)
  have h2: "int (n_pos example_space) < 3" by (simp add: example_space_def)
  from size_beyond_n_pos [OF h1 h2] h1 h2 show ?thesis by blast
qed

subsection \<open>No arguments\<close>

text \<open>
  Claim C9. With neither a dictionary nor a slot list the constructor fails: the slot
  list stays \<^verbatim>\<open>None\<close> and \<^verbatim>\<open>len\<close> of it raises \<open>TypeError\<close>.
\<close>

theorem MutationSpace_init_no_arguments:
  "MutationSpace_init None None = Inl TypeError"
  by (simp add: MutationSpace_init_def)

subsection \<open>The docstring's example\<close>

text \<open>
  Claim C3. The dictionary \<^verbatim>\<open>{'YC17': 'AG', 'TA20': 'A'}\<close> gives the slots
  \<^verbatim>\<open>[['YC17A','YC17G'], ['TA20A']]\<close>; the sizes for degree 1, degree 2 and unspecified
  degree are 3, 2 and 5; \<open>construct\<close> for degree 1 and 2 returns the lists below, in
  this order.
\<close>

theorem example_space_values:
  "dict_to_list example_dct = [[''YC17A'', ''YC17G''], [''TA20A'']] \<and>
   MutationSpace_init (Some example_dct) None = Inr example_space \<and>
   size_space example_space (Some 1) False = Inr 3 \<and>
   size_space example_space (Some 2) False = Inr 2 \<and>
   size_space example_space None False = Inr 5 \<and>
   construct example_space (Some 1) None = Inr [''YC17A'', ''YC17G'', ''TA20A''] \<and>
   construct example_space (Some 2) None = Inr [''YC17A,TA20A'', ''YC17G,TA20A'']"
proof (intro conjI)
  show "dict_to_list example_dct = [[''YC17A'', ''YC17G''], [''TA20A'']]"
    by (simp add: dict_to_list_def example_dct_def)
  show "MutationSpace_init (Some example_dct) None = Inr example_space"
    by (rule example_space_built)
  show "size_space example_space (Some 1) False = Inr 3" by code_simp
  show "size_space example_space (Some 2) False = Inr 2" by code_simp
  show "size_space example_space None False = Inr 5" by code_simp
  show "construct example_space (Some 1) None = Inr [''YC17A'', ''YC17G'', ''TA20A'']"
    by code_simp
  show "construct example_space (Some 2) None = Inr [''YC17A,TA20A'', ''YC17G,TA20A'']"
    by code_simp
qed

end
